theory Spec2Isabelle
  imports Main "HOL-Library.Word"
begin

unbundle bit_operations_syntax

section \<open>bamnostic/bgzf.py: BGZF blocks, the reader's cursor and region queries\<close>

text \<open>
  A shallow embedding of \<^verbatim>\<open>src/bamnostic/bgzf.py\<close>. Python integers are \<open>int\<close>,
  byte strings are lists of 8-bit words, every exception the code can raise is a value
  of \<open>error\<close>, and a function that raises returns \<open>Inl\<close> of it. A method that mutates
  the reader returns the new reader next to its result. The state an exception leaves
  behind is not tracked: a raising call returns the exception only.
\<close>

subsection \<open>Bytes, exceptions, struct\<close>

type_synonym byte = "8 word"
type_synonym bytes = "byte list"

datatype error =
    ValueError string
  | AssertionError string
  | KeyError string
  | StructError
  | ZlibError
  | OSError
  | TypeError
  | AttributeError
  | NotImplementedError string
  | RuntimeError string
  | IOError string
  | StopIteration
  | Exception string

text \<open>Sequencing of calls that may raise: the first exception ends the computation.\<close>

definition bind_err :: "error + 'a \<Rightarrow> ('a \<Rightarrow> error + 'b) \<Rightarrow> error + 'b" where
  "bind_err m f = (case m of Inl e \<Rightarrow> Inl e | Inr x \<Rightarrow> f x)"

text \<open>\<^verbatim>\<open>range(n)\<close>: empty for \<open>n \<le> 0\<close>.\<close>

definition range_py :: "int \<Rightarrow> int list" where
  "range_py n = map int [0 ..< nat n]"

text \<open>
  \<^verbatim>\<open>struct\<close>, little-endian: an unsigned field of \<open>n\<close> bytes is read by \<open>le_uint\<close> and
  written by \<open>le_bytes\<close>. Packing a value outside the range of its format and unpacking
  a buffer that has not exactly the size of the format raise \<^verbatim>\<open>struct.error\<close>.
\<close>

definition le_uint :: "bytes \<Rightarrow> int" where
  "le_uint bs = foldr (\<lambda>b acc. uint b + 256 * acc) bs 0"

definition le_bytes :: "nat \<Rightarrow> int \<Rightarrow> bytes" where
  "le_bytes n v = map (\<lambda>i. word_of_int (v div 256 ^ i)) [0 ..< n]"

definition pack_H :: "int \<Rightarrow> error + bytes" where
  "pack_H v = (if 0 \<le> v \<and> v \<le> 65535 then Inr (le_bytes 2 v) else Inl StructError)"

definition pack_I :: "int \<Rightarrow> error + bytes" where
  "pack_I v = (if 0 \<le> v \<and> v \<le> 4294967295 then Inr (le_bytes 4 v) else Inl StructError)"

definition pack_i :: "int \<Rightarrow> error + bytes" where
  "pack_i v =
     (if - 2147483648 \<le> v \<and> v \<le> 2147483647 then Inr (le_bytes 4 v) else Inl StructError)"

definition unpack_H :: "bytes \<Rightarrow> error + int" where
  "unpack_H raw = (if length raw \<noteq> 2 then Inl StructError else Inr (le_uint raw))"

text \<open>\<^verbatim>\<open>unpack_gzip_integrity\<close>, format \<^verbatim>\<open><2I\<close>: CRC32 and ISIZE.\<close>

definition unpack_gzip_integrity :: "bytes \<Rightarrow> error + (int \<times> int)" where
  "unpack_gzip_integrity raw =
     (if length raw \<noteq> 8 then Inl StructError
      else Inr (le_uint (take 4 raw), le_uint (drop 4 raw)))"

text \<open>
  \<^verbatim>\<open>unpack_bgzf_metaheader\<close>, format \<^verbatim>\<open><4BI2BH2BH\<close> (16 bytes): the tuple
  (ID1, ID2, CM, FLG, MTIME, XFL, OS, XLEN, SI1, SI2, SLEN), as a list of its 11 fields.
\<close>

definition unpack_bgzf_metaheader :: "bytes \<Rightarrow> error + int list" where
  "unpack_bgzf_metaheader raw =
     (if length raw \<noteq> 16 then Inl StructError
      else Inr [uint (raw ! 0), uint (raw ! 1), uint (raw ! 2), uint (raw ! 3),
                le_uint (take 4 (drop 4 raw)),
                uint (raw ! 8), uint (raw ! 9),
                le_uint (take 2 (drop 10 raw)),
                uint (raw ! 12), uint (raw ! 13),
                le_uint (take 2 (drop 14 raw))])"

subsection \<open>Constants of the BGZF format\<close>

definition bgzf_header :: bytes where
  "bgzf_header =
     [0x1f, 0x8b, 0x08, 0x04, 0x00, 0x00, 0x00, 0x00,
      0x00, 0xff, 0x06, 0x00, 0x42, 0x43, 0x02, 0x00]"

definition bgzf_eof :: bytes where
  "bgzf_eof =
     [0x1f, 0x8b, 0x08, 0x04, 0x00, 0x00, 0x00, 0x00,
      0x00, 0xff, 0x06, 0x00, 0x42, 0x43, 0x02, 0x00,
      0x1b, 0x00, 0x03, 0x00, 0x00, 0x00, 0x00, 0x00,
      0x00, 0x00, 0x00, 0x00]"

subsection \<open>The file handle\<close>

text \<open>
  The handle is the buffered binary file \<^verbatim>\<open>open(path, "rb")\<close> returns: the bytes of the
  file and a position. \<^verbatim>\<open>read(n)\<close> returns at most \<open>n\<close> bytes from the position
  (none at or past the end of the file) and advances by what it returned; \<^verbatim>\<open>read(-1)\<close>
  returns everything up to the end of the file; a size below \<open>-1\<close> raises ValueError.
  \<^verbatim>\<open>seek\<close> to a negative position raises OSError; a position past the end is accepted.
\<close>

record file_handle =
  contents :: bytes
  position :: nat

definition h_read :: "file_handle \<Rightarrow> int \<Rightarrow> error + (bytes \<times> file_handle)" where
  "h_read h n =
     (if n < - 1 then Inl (ValueError ''read length must be non-negative or -1'')
      else
        let rest = drop (position h) (contents h);
            data = (if n = - 1 then rest else take (nat n) rest)
        in Inr (data, h\<lparr>position := position h + length data\<rparr>))"

definition h_seek :: "file_handle \<Rightarrow> int \<Rightarrow> error + file_handle" where
  "h_seek h offset = (if offset < 0 then Inl OSError else Inr (h\<lparr>position := nat offset\<rparr>))"

text \<open>\<^verbatim>\<open>seek(offset, 2)\<close>: relative to the end of the file.\<close>

definition h_seek_end :: "file_handle \<Rightarrow> int \<Rightarrow> error + file_handle" where
  "h_seek_end h offset = h_seek h (int (length (contents h)) + offset)"

definition h_tell :: "file_handle \<Rightarrow> int" where
  "h_tell h = int (position h)"

subsection \<open>zlib\<close>

text \<open>
  The three functions of the zlib library the module calls are parameters of the model:
  \<^item> \<open>decompress\<close> is \<^verbatim>\<open>d = zlib.decompressobj(-15); d.decompress(x) + d.flush()\<close>, the raw
    inflater; \<open>None\<close> stands for \<^verbatim>\<open>zlib.error\<close>;
  \<^item> \<open>compress level\<close> is \<^verbatim>\<open>c = zlib.compressobj(level, zlib.DEFLATED, -15,
    zlib.DEF_MEM_LEVEL, 0); c.compress(x) + c.flush()\<close>, the raw deflater;
  \<^item> \<open>crc32\<close> is \<^verbatim>\<open>zlib.crc32\<close>, which is signed on some Python platforms.
\<close>

record zlib =
  decompress :: "bytes \<Rightarrow> bytes option"
  compress :: "int \<Rightarrow> bytes \<Rightarrow> bytes"
  crc32 :: "bytes \<Rightarrow> int"

subsection \<open>The block codec (\<^verbatim>\<open>_bgzf_metaheader\<close>, \<^verbatim>\<open>_load_bgzf_block\<close>, \<^verbatim>\<open>_write_block\<close>)\<close>

definition bgzf_metaheader :: "file_handle \<Rightarrow> error + ((int list \<times> bytes) \<times> file_handle)" where
  "bgzf_metaheader h =
     bind_err (h_read h 16) (\<lambda>(meta_raw, h1).
     bind_err (unpack_bgzf_metaheader meta_raw) (\<lambda>meta.
       let ID1 = meta ! 0; ID2 = meta ! 1; CM = meta ! 2; FLG = meta ! 3;
           SI1 = meta ! 8; SI2 = meta ! 9; SLEN = meta ! 10;
           checks = [ID1 = 31, ID2 = 139, CM = 8, FLG = 4, SI1 = 66, SI2 = 67, SLEN = 2]
       in if \<not> list_all (\<lambda>c. c) checks then Inl (ValueError ''Malformed BGZF block'')
          else Inr ((meta, meta_raw), h1)))"

definition load_bgzf_block :: "zlib \<Rightarrow> file_handle \<Rightarrow> error + ((int \<times> bytes) \<times> file_handle)" where
  "load_bgzf_block z h =
     bind_err (bgzf_metaheader h) (\<lambda>((header, meta_raw), h1).
       let XLEN = header ! (length header - 4) in
     bind_err (h_read h1 2) (\<lambda>(bsize_raw, h2).
     bind_err (unpack_H bsize_raw) (\<lambda>BSIZE.
       let d_size = BSIZE - XLEN - 19 in
     bind_err (h_read h2 d_size) (\<lambda>(compressed, h3).
     bind_err (case decompress z compressed of None \<Rightarrow> Inl ZlibError | Some d \<Rightarrow> Inr d) (\<lambda>data.
     bind_err (h_read h3 8) (\<lambda>(integrity_raw, h4).
     bind_err (unpack_gzip_integrity integrity_raw) (\<lambda>(CRC32, ISIZE).
       let deflated_crc = crc32 z data;
           deflated_crc = (if deflated_crc < 0 then deflated_crc mod 2 ^ 32 else deflated_crc)
       in if CRC32 \<noteq> deflated_crc then Inl (ValueError ''CRCs are not equal'')
          else if ISIZE \<noteq> int (length data) then Inl (ValueError ''unequal uncompressed data size'')
          else Inr ((BSIZE + 1, data), h4))))))))"

text \<open>
  \<^verbatim>\<open>BgzfWriter._write_block\<close>: the result is the byte string handed to
  \<^verbatim>\<open>self._handle.write\<close>.
\<close>

definition write_block :: "zlib \<Rightarrow> int \<Rightarrow> bytes \<Rightarrow> error + bytes" where
  "write_block z compresslevel block =
     (if \<not> length block \<le> 65536 then Inl (AssertionError [])
      else
        let compressed = compress z compresslevel block in
        if \<not> length compressed < 65536 then Inl (AssertionError ''Didn't compress enough'')
        else
          let crc = crc32 z block in
          bind_err (if crc < 0 then pack_i crc else pack_I crc) (\<lambda>crc_first.
          bind_err (pack_H (int (length compressed) + 25)) (\<lambda>bsize.
          bind_err (pack_I (crc32 z block AND 0xffffffff)) (\<lambda>crc.
          bind_err (pack_I (int (length block))) (\<lambda>uncompressed_length.
            Inr (bgzf_header @ bsize @ compressed @ crc @ uncompressed_length))))))"

subsection \<open>The index statistics (\<^verbatim>\<open>BgzfReader.get_index_stats\<close>)\<close>

text \<open>
  The companion index (\<^verbatim>\<open>bamnostic.bai.Bai\<close>) is built outside this file. The reader
  uses its dictionary \<^verbatim>\<open>unmapped\<close> (reference id to an object with \<^verbatim>\<open>n_mapped\<close> and
  \<^verbatim>\<open>n_unmapped\<close>), its count \<^verbatim>\<open>n_no_coor\<close> and its method \<^verbatim>\<open>query\<close>, which are
  taken as they are given.
\<close>

record ref_stats =
  n_mapped :: int
  n_unmapped :: int

record bai =
  unmapped :: "int \<rightharpoonup> ref_stats"
  n_no_coor :: int
  query :: "int \<Rightarrow> int \<Rightarrow> int \<Rightarrow> int option"

text \<open>\<^verbatim>\<open>BAMheader\<close>: the number of references and the dictionary
  \<^verbatim>\<open>refs\<close> from reference id to (name, length).\<close>

record bam_header =
  n_refs :: int
  refs :: "int \<rightharpoonup> (string \<times> int)"

text \<open>
  The loop of \<^verbatim>\<open>get_index_stats\<close> over \<^verbatim>\<open>range(self._header.n_refs)\<close>. A key missing
  from \<^verbatim>\<open>unmapped\<close> raises KeyError, which the loop catches; an index that is \<^verbatim>\<open>None\<close>
  raises AttributeError, which it does not.
\<close>

fun index_stats_loop ::
  "bai option \<Rightarrow> int list \<Rightarrow> (int \<times> int \<times> int) list \<Rightarrow> error + (int \<times> int \<times> int) list" where
  "index_stats_loop idx [] idx_stats = Inr idx_stats"
| "index_stats_loop idx (ref # rest) idx_stats =
     (case idx of
        None \<Rightarrow> Inl AttributeError
      | Some b \<Rightarrow>
          (case unmapped b ref of
             Some u \<Rightarrow>
               index_stats_loop idx rest
                 (idx_stats @ [(n_mapped u, n_unmapped u, n_mapped u + n_unmapped u)])
           | None \<Rightarrow> index_stats_loop idx rest (idx_stats @ [(0, 0, 0)])))"

definition get_index_stats ::
  "bool \<Rightarrow> bai option \<Rightarrow> bam_header \<Rightarrow> error + (int \<times> int \<times> int) list" where
  "get_index_stats check_idx idx hdr =
     (if \<not> check_idx then Inl (AssertionError ''No index available'')
      else index_stats_loop idx (range_py (n_refs hdr)) [])"

subsection \<open>The block cache and virtual offsets (\<^verbatim>\<open>bamnostic.utils\<close>)\<close>

text \<open>
  Modelled from the spec: \<^verbatim>\<open>LruDict\<close> of \<^verbatim>\<open>bamnostic.utils\<close> is not among the sources.
  The spec (4.3) gives a bounded mapping from the offset of a block to its payload and
  raw length: a lookup promotes the key to most recently used; storing an absent key in a
  full cache evicts the least recently used entry; storing a present key updates the
  value and promotes the key. The entries are kept in order of use, the least recently
  used first.
\<close>

record lru_dict =
  max_cache :: nat
  entries :: "(int \<times> (bytes \<times> int)) list"

definition lru_contains :: "lru_dict \<Rightarrow> int \<Rightarrow> bool" where
  "lru_contains d k = (map_of (entries d) k \<noteq> None)"

definition lru_get :: "lru_dict \<Rightarrow> int \<Rightarrow> ((bytes \<times> int) \<times> lru_dict) option" where
  "lru_get d k =
     (case map_of (entries d) k of
        None \<Rightarrow> None
      | Some v \<Rightarrow> Some (v, d\<lparr>entries := filter (\<lambda>e. fst e \<noteq> k) (entries d) @ [(k, v)]\<rparr>))"

definition lru_put :: "lru_dict \<Rightarrow> int \<Rightarrow> bytes \<times> int \<Rightarrow> lru_dict" where
  "lru_put d k v =
     (if lru_contains d k
      then d\<lparr>entries := filter (\<lambda>e. fst e \<noteq> k) (entries d) @ [(k, v)]\<rparr>
      else if max_cache d \<le> length (entries d)
      then d\<lparr>entries := tl (entries d) @ [(k, v)]\<rparr>
      else d\<lparr>entries := entries d @ [(k, v)]\<rparr>)"

text \<open>
  Modelled from the spec: \<^verbatim>\<open>make_virtual_offset\<close> of \<^verbatim>\<open>bamnostic.utils\<close> is not among
  the sources. The spec (4.1): \<^verbatim>\<open>make(coffset, uoffset)\<close> rejects \<^verbatim>\<open>uoffset >= 2^16\<close> or
  \<^verbatim>\<open>coffset >= 2^48\<close> with a domain error, and the virtual offset is
  \<^verbatim>\<open>(coffset << 16) | uoffset\<close>.
\<close>

definition make_virtual_offset :: "int \<Rightarrow> int \<Rightarrow> error + int" where
  "make_virtual_offset coffset uoffset =
     (if uoffset \<ge> 2 ^ 16 \<or> coffset \<ge> 2 ^ 48
      then Inl (ValueError ''virtual offset out of range'')
      else Inr (push_bit 16 coffset OR uoffset))"

subsection \<open>The reader's cursor (\<^verbatim>\<open>_load_block\<close>, \<^verbatim>\<open>tell\<close>, \<^verbatim>\<open>seek\<close>, \<^verbatim>\<open>read\<close>)\<close>

text \<open>
  The attributes of \<^verbatim>\<open>BgzfReader\<close> the cursor and the queries use.
  \<^verbatim>\<open>_block_start_offset\<close> and \<^verbatim>\<open>_block_raw_length\<close> are \<^verbatim>\<open>None\<close> until the first
  block is loaded. \<^verbatim>\<open>_within_block_offset\<close> is a natural number: the code sets it to 0,
  to the low 16 bits of a virtual offset, or adds a positive size to it.
\<close>

record reader =
  handle :: file_handle
  text_mode :: bool
  buffers :: lru_dict
  block_start_offset :: "int option"
  block_raw_length :: "int option"
  buffer :: bytes
  within_block_offset :: nat
  random_access :: bool
  index :: "bai option"
  header :: bam_header

text \<open>
  \<^verbatim>\<open>_load_block(start_offset=None)\<close>. The handler \<^verbatim>\<open>except StopIteration\<close> around the
  call of \<^verbatim>\<open>_load_bgzf_block\<close> is the branch \<open>Inl StopIteration\<close>; every other
  exception passes through.
\<close>

definition load_block :: "zlib \<Rightarrow> reader \<Rightarrow> int option \<Rightarrow> error + reader" where
  "load_block z r start_offset_arg =
     bind_err
       (case start_offset_arg of
          Some s \<Rightarrow> Inr s
        | None \<Rightarrow>
            (case (block_start_offset r, block_raw_length r) of
               (Some b, Some l) \<Rightarrow> Inr (b + l)
             | _ \<Rightarrow> Inl TypeError))
       (\<lambda>start_offset.
          if Some start_offset = block_start_offset r then Inr (r\<lparr>within_block_offset := 0\<rparr>)
          else if lru_contains (buffers r) start_offset then
            (case lru_get (buffers r) start_offset of
               None \<Rightarrow> Inl (KeyError ''buffers'')
             | Some ((buf, raw_length), d) \<Rightarrow>
                 Inr (r\<lparr>buffers := d, buffer := buf, block_raw_length := Some raw_length,
                        within_block_offset := 0, block_start_offset := Some start_offset\<rparr>))
          else
            bind_err (h_seek (handle r) start_offset) (\<lambda>h1.
              let bso = h_tell h1 in
              bind_err
                (case load_bgzf_block z h1 of
                   Inl StopIteration \<Rightarrow> Inr ((0, []), h1)
                 | Inl e \<Rightarrow> Inl e
                 | Inr res \<Rightarrow> Inr res)
                (\<lambda>((block_size, buf), h2).
                   Inr (r\<lparr>handle := h2, block_start_offset := Some bso, buffer := buf,
                          within_block_offset := 0, block_raw_length := Some block_size,
                          buffers := lru_put (buffers r) bso (buf, block_size)\<rparr>))))"

definition tell :: "reader \<Rightarrow> error + int" where
  "tell r =
     (case block_start_offset r of
        None \<Rightarrow> Inl TypeError
      | Some b \<Rightarrow> make_virtual_offset b (int (within_block_offset r)))"

definition seek :: "zlib \<Rightarrow> reader \<Rightarrow> int \<Rightarrow> error + (int \<times> reader)" where
  "seek z r virtual_offset =
     (let start_offset = drop_bit 16 virtual_offset;
          within_block = virtual_offset XOR push_bit 16 start_offset
      in
      bind_err
        (if Some start_offset \<noteq> block_start_offset r then
           bind_err (load_block z r (Some start_offset)) (\<lambda>r1.
             if \<not> Some start_offset = block_start_offset r1 then Inl (AssertionError [])
             else Inr r1)
         else Inr r)
        (\<lambda>r1.
           if within_block > int (length (buffer r1))
              \<and> \<not> (within_block = 0 \<and> length (buffer r1) = 0)
           then Inl (ValueError ''Within offset but block size only'')
           else Inr (virtual_offset, r1\<lparr>within_block_offset := nat within_block\<rparr>)))"

lemma load_block_within:
  "load_block z r so = Inr r1 \<Longrightarrow> within_block_offset r1 = 0"
  unfolding load_block_def bind_err_def Let_def
  by (auto split: sum.splits option.splits if_splits prod.splits error.splits)

function read :: "zlib \<Rightarrow> reader \<Rightarrow> int \<Rightarrow> error + (bytes \<times> reader)" where
  "read z r sz =
     (if sz < 0 then Inl (NotImplementedError ''Don't be greedy, that could be massive!'')
      else if sz = 0 then Inr ([], r)
      else if int (within_block_offset r) + sz \<le> int (length (buffer r)) then
        (let data = take (nat sz) (drop (within_block_offset r) (buffer r)) in
         if data = [] then Inl (AssertionError [])
         else Inr (data, r\<lparr>within_block_offset := within_block_offset r + nat sz\<rparr>))
      else
        (let data = drop (within_block_offset r) (buffer r);
             sz1 = sz - int (length data)
         in case load_block z r None of
              Inl e \<Rightarrow> Inl e
            | Inr r1 \<Rightarrow>
                if buffer r1 = [] then Inr (data, r1)
                else if sz1 \<noteq> 0 then
                  (case read z r1 sz1 of
                     Inl e \<Rightarrow> Inl e
                   | Inr (rest_data, r2) \<Rightarrow> Inr (data @ rest_data, r2))
                else Inr (data, r1)))"
  by pat_completeness auto
termination
proof (relation "measure (\<lambda>(z, r, sz).
          2 * nat sz + (if within_block_offset r < length (buffer r) then 0 else 1))")
  show "wf (measure (\<lambda>(z, r, sz).
          2 * nat sz + (if within_block_offset r < length (buffer r) then 0 else 1)))"
    by simp
next
  fix z :: zlib and r :: reader and sz :: int and x xa :: "bytes" and xb :: int and r1 :: reader
  assume a: "\<not> sz < 0" "sz \<noteq> 0" "\<not> int (within_block_offset r) + sz \<le> int (length (buffer r))"
    and d: "x = drop (within_block_offset r) (buffer r)"
    and s: "xb = sz - int (length x)"
    and l: "load_block z r None = Inr r1"
    and b: "buffer r1 \<noteq> []" "xb \<noteq> 0"
  have w: "within_block_offset r1 = 0" using l by (rule load_block_within)
  show "((z, r1, xb), (z, r, sz)) \<in> measure (\<lambda>(z, r, sz).
          2 * nat sz + (if within_block_offset r < length (buffer r) then 0 else 1))"
    using a d s b w by (auto simp: nat_diff_distrib)
qed

subsection \<open>Opening a file (\<^verbatim>\<open>_check_truncation\<close>, \<^verbatim>\<open>BgzfReader.__init__\<close>)\<close>

text \<open>
  \<^verbatim>\<open>_check_truncation\<close> reads the last 28 bytes of the file and restores the position.
  When they are not the marker it evaluates \<^verbatim>\<open>warnings.BytesWarning(...)\<close> before its
  \<^verbatim>\<open>return True\<close>: the module \<^verbatim>\<open>warnings\<close> has no attribute of that name (the class
  is a builtin), so the expression raises AttributeError.
\<close>

definition check_truncation :: "file_handle \<Rightarrow> error + (bool \<times> file_handle)" where
  "check_truncation h =
     (let temp_pos = h_tell h in
      bind_err (h_seek_end h (- 28)) (\<lambda>h1.
      bind_err (h_read h1 (- 1)) (\<lambda>(eof, h2).
      bind_err (h_seek h2 temp_pos) (\<lambda>h3.
        if eof = bgzf_eof then Inr (False, h3)
        else Inl AttributeError))))"

text \<open>
  \<^verbatim>\<open>__init__\<close> from its first statement to the truncation check (the index, the first
  block and the header follow): the check of \<^verbatim>\<open>max_cache\<close>, the new cache, the handle of
  the opened file, the check of the mode, and the truncation check unless
  \<^verbatim>\<open>ignore_truncation\<close> is set. The result is the cache and the handle the rest of the
  constructor goes on with.
\<close>

definition reader_init ::
  "int \<Rightarrow> string \<Rightarrow> bool \<Rightarrow> file_handle \<Rightarrow> error + (lru_dict \<times> file_handle)" where
  "reader_init max_cache_arg mode ignore_truncation h =
     (if max_cache_arg < 1 then Inl (ValueError ''Use max_cache with a minimum of 1'')
      else
        let bufs = \<lparr>max_cache = nat max_cache_arg, entries = []\<rparr> in
        if CHR ''b'' \<notin> set mode \<and> CHR ''B'' \<notin> set mode
        then Inl (IOError ''BAM file requires binary mode'')
        else if \<not> ignore_truncation then
          bind_err (check_truncation h) (\<lambda>(truncated, h1).
            if truncated then Inl (Exception ''BAM file may be truncated'')
            else Inr (bufs, h1))
        else Inr (bufs, h))"

subsection \<open>Region queries (\<^verbatim>\<open>fetch\<close>, \<^verbatim>\<open>count\<close>)\<close>

text \<open>
  \<^verbatim>\<open>bamnostic.AlignedSegment\<close> parses one read from the cursor and is not among the
  sources; a read is taken with the attributes the queries use, \<open>nonempty\<close> being its
  truth value. The reads the parser delivers from the position a query seeks to are a
  list; \<^verbatim>\<open>next(self)\<close> raises StopIteration on a read that is false and when the reads
  have run out.
\<close>

record aligned_segment =
  nonempty :: bool
  reference_id :: int
  reference_name :: string
  pos :: int
  flag :: int

text \<open>The region \<^verbatim>\<open>region_parser\<close> of \<^verbatim>\<open>bamnostic.utils\<close> returns
  (\<^verbatim>\<open>query.contig\<close>, \<^verbatim>\<open>query.start\<close>, \<^verbatim>\<open>query.stop\<close>).\<close>

record roi =
  roi_contig :: string
  roi_start :: int
  roi_stop :: "int option"

text \<open>
  \<^verbatim>\<open>fetch\<close> is a generator. Its run is the list of what it yields, in order, and the way
  it ends: \<open>None\<close> when it returns, \<open>Some e\<close> when the exception \<open>e\<close> leaves it (its
  consumer then gets \<open>e\<close> after the values yielded before).

  \<^verbatim>\<open>next(self)\<close> is called in the body of the generator with no \<^verbatim>\<open>try\<close> around it, so
  its StopIteration is raised inside the generator. What becomes of it depends on the
  interpreter, which \<open>generator_stop\<close> stands for: from Python 3.7 on (PEP 479,
  \<open>generator_stop = True\<close>) it leaves the generator as
  \<^verbatim>\<open>RuntimeError('generator raised StopIteration')\<close>; before (\<open>generator_stop = False\<close>) it
  ended the iteration as a \<^verbatim>\<open>return\<close> does.
\<close>

type_synonym 'a generator_run = "'a list \<times> error option"

definition stop_iteration_in_generator :: "bool \<Rightarrow> error option" where
  "stop_iteration_in_generator generator_stop =
     (if generator_stop then Some (RuntimeError ''generator raised StopIteration'') else None)"

definition yield_then :: "'a \<Rightarrow> 'a generator_run \<Rightarrow> 'a generator_run" where
  "yield_then x run = (x # fst run, snd run)"

text \<open>The loop \<^verbatim>\<open>while boundary_check\<close> of \<^verbatim>\<open>fetch\<close>.\<close>

fun fetch_loop ::
  "bool \<Rightarrow> bool \<Rightarrow> string \<Rightarrow> int \<Rightarrow> int \<Rightarrow> aligned_segment list
     \<Rightarrow> aligned_segment generator_run" where
  "fetch_loop generator_stop until_eof cname start_arg stop_arg [] =
     ([], stop_iteration_in_generator generator_stop)"
| "fetch_loop generator_stop until_eof cname start_arg stop_arg (next_read # rest) =
     (if \<not> nonempty next_read then ([], stop_iteration_in_generator generator_stop)
      else if \<not> until_eof then
        (let boundary_check = True;
             boundary_check = (if reference_name next_read \<noteq> cname then False else boundary_check);
             boundary_check = (if start_arg < stop_arg \<and> stop_arg < pos next_read then False
                               else boundary_check)
         in if nonempty next_read
            then (if boundary_check
                  then yield_then next_read
                         (fetch_loop generator_stop until_eof cname start_arg stop_arg rest)
                  else ([next_read], None))
            else ([], None))
      else yield_then next_read
             (fetch_loop generator_stop until_eof cname start_arg stop_arg rest))"

text \<open>
  \<^verbatim>\<open>fetch\<close> for a call that names the contig, with \<open>tid\<close> the reference id it resolves
  to, \<open>start_arg\<close> the argument \<^verbatim>\<open>start\<close> and \<open>q\<close> the region; from the bounds check
  (\<^verbatim>\<open>try:\<close>) to the end. The variable \<^verbatim>\<open>stop\<close> is assigned from the region or from the
  length of the reference before its first use. An exception raised before the loop
  leaves the generator with nothing yielded.
\<close>

definition fetch ::
  "bool \<Rightarrow> zlib \<Rightarrow> reader \<Rightarrow> string \<Rightarrow> int \<Rightarrow> int \<Rightarrow> bool \<Rightarrow> bool \<Rightarrow> roi
     \<Rightarrow> aligned_segment list \<Rightarrow> aligned_segment generator_run" where
  "fetch generator_stop z r cname start_arg tid until_eof multiple_iterators q reads =
     (if \<not> random_access r
      then ([], Some (ValueError ''Random access not available due to lack of index file''))
      else if multiple_iterators
      then ([], Some (NotImplementedError ''multiple_iterators not yet implemented''))
      else
        (case refs (header r) tid of
           None \<Rightarrow> ([], Some (KeyError ''was not found in the file header''))
         | Some (ref_name, ref_len) \<Rightarrow>
             if roi_start q > ref_len
             then ([], Some (ValueError ''Genomic region out of bounds.''))
             else
               let stop_arg = (case roi_stop q of None \<Rightarrow> ref_len | Some s \<Rightarrow> s) in
               if \<not> roi_start q \<le> stop_arg
               then ([], Some (AssertionError ''Malformed region: start should be <= stop''))
               else
                 (case index r of
                    None \<Rightarrow> ([], Some AttributeError)
                  | Some b \<Rightarrow>
                      (case query b tid start_arg stop_arg of
                         None \<Rightarrow> ([], None)
                       | Some first_read_block \<Rightarrow>
                           (case seek z r first_read_block of
                              Inl e \<Rightarrow> ([], Some e)
                            | Inr (vo, r1) \<Rightarrow>
                                fetch_loop generator_stop until_eof cname start_arg stop_arg
                                  reads)))))"

text \<open>\<^verbatim>\<open>read_callback\<close>: a string, a callable, or any other object.\<close>

datatype read_callback =
    CallbackStr string
  | CallbackFun "aligned_segment \<Rightarrow> bool"
  | CallbackOther

text \<open>The body of the loop \<^verbatim>\<open>for read in roi_reads\<close> of \<^verbatim>\<open>count\<close>, over the reads the
  generator yields.\<close>

fun count_loop :: "read_callback \<Rightarrow> aligned_segment list \<Rightarrow> int \<Rightarrow> error + int" where
  "count_loop cb [] cnt = Inr cnt"
| "count_loop cb (rd # rest) cnt =
     (case cb of
        CallbackStr tag \<Rightarrow>
          if tag = ''nofilter'' then count_loop cb rest (cnt + 1)
          else if tag = ''all'' then
            (if flag rd AND 0x704 = 0 then count_loop cb rest (cnt + 1)
             else count_loop cb rest cnt)
          else Inl (RuntimeError ''read_callback should be all, nofilter, or a custom function'')
      | CallbackFun f \<Rightarrow>
          if f rd then count_loop cb rest (cnt + 1) else count_loop cb rest cnt
      | CallbackOther \<Rightarrow>
          Inl (RuntimeError ''read_callback should be all, nofilter, or a custom function''))"

text \<open>
  \<^verbatim>\<open>count\<close>: the loop runs over the reads yielded; an exception of the loop body ends
  it at that read; when the generator ends with an exception after its last read, the
  loop raises it; otherwise \<^verbatim>\<open>count\<close> returns the number counted.
\<close>

definition count ::
  "bool \<Rightarrow> zlib \<Rightarrow> reader \<Rightarrow> string \<Rightarrow> int \<Rightarrow> int \<Rightarrow> bool \<Rightarrow> roi \<Rightarrow> aligned_segment list
     \<Rightarrow> read_callback \<Rightarrow> error + int" where
  "count generator_stop z r cname start_arg tid until_eof q reads cb =
     (case fetch generator_stop z r cname start_arg tid until_eof False q reads of
        (roi_reads, raised) \<Rightarrow>
          (case count_loop cb roi_reads 0 of
             Inl e \<Rightarrow> Inl e
           | Inr cnt \<Rightarrow> (case raised of Some e \<Rightarrow> Inl e | None \<Rightarrow> Inr cnt)))"

subsection \<open>Properties of the index statistics\<close>

definition stats_of :: "bai \<Rightarrow> int \<Rightarrow> int \<times> int \<times> int" where
  "stats_of b ref =
     (case unmapped b ref of
        Some u \<Rightarrow> (n_mapped u, n_unmapped u, n_mapped u + n_unmapped u)
      | None \<Rightarrow> (0, 0, 0))"

lemma index_stats_loop_map:
  "index_stats_loop (Some b) rs acc = Inr (acc @ map (stats_of b) rs)"
  by (induction rs arbitrary: acc) (simp_all add: stats_of_def split: option.split)

lemma get_index_stats_map:
  "get_index_stats True (Some b) hdr = Inr (map (stats_of b) (range_py (n_refs hdr)))"
  by (simp add: get_index_stats_def index_stats_loop_map)

text \<open>
  C9. With a loaded index, \<^verbatim>\<open>get_index_stats\<close> returns normally a list with exactly one
  tuple per reference of the header, in the order of the reference ids; the tuple of a
  reference id that has an entry in the index is (mapped, unmapped, mapped + unmapped),
  and the tuple of a reference id the index has no entry for is (0, 0, 0).
\<close>

theorem get_index_stats_per_reference:
  "\<exists>stats. get_index_stats True (Some b) hdr = Inr stats
     \<and> length stats = nat (n_refs hdr)
     \<and> (\<forall>i < nat (n_refs hdr).
          (\<forall>u. unmapped b (int i) = Some u \<longrightarrow>
               stats ! i = (n_mapped u, n_unmapped u, n_mapped u + n_unmapped u))
        \<and> (unmapped b (int i) = None \<longrightarrow> stats ! i = (0, 0, 0)))"
  by (simp add: get_index_stats_map range_py_def stats_of_def)

text \<open>
  The statistics of the two-reference fixture, with the entry of the second reference
  taken out of the index: reference 0 reports its counts, reference 1 reports zeros.
\<close>

definition fixture_bai :: bai where
  "fixture_bai =
     \<lparr>unmapped = [0 \<mapsto> \<lparr>n_mapped = 1446, n_unmapped = 18\<rparr>],
      n_no_coor = 0,
      query = (\<lambda>tid start stop. None)\<rparr>"

definition fixture_header :: bam_header where
  "fixture_header =
     \<lparr>n_refs = 2, refs = [0 \<mapsto> (''chr1'', 1575), 1 \<mapsto> (''chr2'', 1584)]\<rparr>"

theorem get_index_stats_per_reference_witness:
  "\<exists>stats. get_index_stats True (Some fixture_bai) fixture_header = Inr stats
     \<and> length stats = 2 \<and> stats ! 0 = (1446, 18, 1464) \<and> stats ! 1 = (0, 0, 0)"
proof -
  from get_index_stats_per_reference [of fixture_bai fixture_header]
  obtain stats where
    ret: "get_index_stats True (Some fixture_bai) fixture_header = Inr stats" and
    len: "length stats = nat (n_refs fixture_header)" and
    each: "\<forall>i < nat (n_refs fixture_header).
          (\<forall>u. unmapped fixture_bai (int i) = Some u \<longrightarrow>
               stats ! i = (n_mapped u, n_unmapped u, n_mapped u + n_unmapped u))
        \<and> (unmapped fixture_bai (int i) = None \<longrightarrow> stats ! i = (0, 0, 0))"
    by blast
  have first: "stats ! 0 = (1446, 18, 1464)"
    using each [rule_format, of 0] by (simp add: fixture_bai_def fixture_header_def)
  have second: "stats ! 1 = (0, 0, 0)"
    using each [rule_format, of 1] by (simp add: fixture_bai_def fixture_header_def)
  from ret len first second show ?thesis
    by (simp add: fixture_header_def)
qed

subsection \<open>A reader of the two-reference fixture\<close>

text \<open>
  A reader whose cursor stands at the start of block 0, the payload of the block being
  38 bytes long; \<open>qf\<close> is what the index answers to a query. The file behind the
  handle is left out: the seeks below stay in block 0, which is loaded.
\<close>

definition fixture_reader :: "(int \<Rightarrow> int \<Rightarrow> int \<Rightarrow> int option) \<Rightarrow> reader" where
  "fixture_reader qf =
     \<lparr>handle = \<lparr>contents = [], position = 0\<rparr>,
      text_mode = False,
      buffers = \<lparr>max_cache = 128, entries = []\<rparr>,
      block_start_offset = Some 0,
      block_raw_length = Some 53,
      buffer = replicate 38 0,
      within_block_offset = 0,
      random_access = True,
      index = Some (fixture_bai\<lparr>query := qf\<rparr>),
      header = fixture_header\<rparr>"

definition chr1_region :: roi where
  "chr1_region = \<lparr>roi_contig = ''chr1'', roi_start = 1, roi_stop = Some 100\<rparr>"

definition read_at :: "int \<Rightarrow> string \<Rightarrow> int \<Rightarrow> aligned_segment" where
  "read_at rid name p =
     \<lparr>nonempty = True, reference_id = rid, reference_name = name, pos = p, flag = 0\<rparr>"

lemma fixture_reader_fields:
  "random_access (fixture_reader qf)"
  "header (fixture_reader qf) = fixture_header"
  "index (fixture_reader qf) = Some (fixture_bai\<lparr>query := qf\<rparr>)"
  by (simp_all add: fixture_reader_def)

lemma fixture_reader_cursor:
  "block_start_offset (fixture_reader qf) = Some 0"
  "length (buffer (fixture_reader qf)) = 38"
  by (simp_all add: fixture_reader_def)

lemma seek_fixture_0: "seek z (fixture_reader qf) 0 = Inr (0, fixture_reader qf)"
  by (simp add: seek_def fixture_reader_def bind_err_def)

subsection \<open>Properties of the region queries\<close>

text \<open>What the loop of \<^verbatim>\<open>fetch\<close> does yield: with \<^verbatim>\<open>until_eof\<close> off, every read but the
  last one yielded is of the contig and not past \<^verbatim>\<open>stop\<close> (the position is compared
  only when \<^verbatim>\<open>start < stop\<close>); with \<^verbatim>\<open>until_eof\<close> on, every read up to the first
  false one, and the loop ends by the StopIteration of \<^verbatim>\<open>next(self)\<close>.\<close>

lemma fetch_loop_all_but_last_in_region:
  "r \<in> set (butlast (fst (fetch_loop generator_stop False cname start_arg stop_arg reads)))
     \<Longrightarrow> reference_name r = cname \<and> \<not> (start_arg < stop_arg \<and> stop_arg < pos r)"
proof (induction reads)
  case Nil
  then show ?case by simp
next
  case (Cons next_read rest)
  then show ?case
    by (auto simp add: Let_def yield_then_def split: if_splits)
qed

lemma fetch_loop_until_eof:
  "fetch_loop generator_stop True cname start_arg stop_arg reads
     = (takeWhile nonempty reads, stop_iteration_in_generator generator_stop)"
  by (induction reads) (simp_all add: yield_then_def)

text \<open>
  C1. The claim: with \<^verbatim>\<open>until_eof\<close> off, \<^verbatim>\<open>fetch\<close> never yields a read of another
  reference or a read whose position exceeds \<^verbatim>\<open>stop\<close>. The loop clears
  \<^verbatim>\<open>boundary_check\<close> on such a read and then yields it all the same, so the first read
  out of the region is yielded before the iteration ends: for the region chr1:1-100, a
  read of chr1 at position 150 is yielded, and so is a read of chr2; the generator then
  returns.
\<close>

theorem fetch_yields_read_out_of_region:
  "fetch generator_stop z (fixture_reader (\<lambda>tid start stop. Some 0)) ''chr1'' 1 0 False False
     chr1_region [read_at 0 ''chr1'' 150, read_at 0 ''chr1'' 160]
     = ([read_at 0 ''chr1'' 150], None)
   \<and> fetch generator_stop z (fixture_reader (\<lambda>tid start stop. Some 0)) ''chr1'' 1 0 False False
     chr1_region [read_at 1 ''chr2'' 5, read_at 1 ''chr2'' 6]
     = ([read_at 1 ''chr2'' 5], None)"
  by (simp add: fetch_def seek_fixture_0 fixture_reader_fields fixture_header_def
      fixture_bai_def chr1_region_def read_at_def)

text \<open>
  What \<^verbatim>\<open>count\<close> does with \<^verbatim>\<open>read_callback\<close>: it looks at it only in the loop body. When
  the generator yields nothing, the outcome does not depend on it: 0 when the generator
  returns, the exception of the generator otherwise. When the generator yields a read, a
  \<^verbatim>\<open>read_callback\<close> that is neither \<^verbatim>\<open>'nofilter'\<close>, \<^verbatim>\<open>'all'\<close> nor a callable raises
  RuntimeError at the first read.
\<close>

lemma count_nothing_yielded:
  assumes "fetch generator_stop z r cname start_arg tid until_eof False q reads = ([], raised)"
  shows "count generator_stop z r cname start_arg tid until_eof q reads cb
           = (case raised of Some e \<Rightarrow> Inl e | None \<Rightarrow> Inr 0)"
  using assms by (simp add: count_def)

lemma count_unrecognised_callback:
  assumes "fetch generator_stop z r cname start_arg tid until_eof False q reads
             = (rd # rest, raised)"
    and "cb = CallbackOther
         \<or> (\<exists>tag. cb = CallbackStr tag \<and> tag \<noteq> ''nofilter'' \<and> tag \<noteq> ''all'')"
  shows "count generator_stop z r cname start_arg tid until_eof q reads cb
           = Inl (RuntimeError ''read_callback should be all, nofilter, or a custom function'')"
  using assms by (auto simp add: count_def)

lemma count_index_without_chunk:
  "count generator_stop z (fixture_reader (\<lambda>tid start stop. None)) ''chr1'' 1 0 False
     chr1_region reads cb = Inr 0"
  by (simp add: count_def fetch_def fixture_reader_fields fixture_header_def fixture_bai_def
      chr1_region_def)


subsection \<open>Properties of the cursor\<close>

text \<open>The offset within the block that \<^verbatim>\<open>seek\<close> computes is the low 16 bits of the
  virtual offset, and the two parts make up the virtual offset again.\<close>

lemma split_uoffset: "(vo::int) XOR push_bit 16 (drop_bit 16 vo) = take_bit 16 vo"
  apply (rule bit_eqI)
  apply (auto simp: bit_simps)
  done

lemma split_uoffset_and: "(vo::int) XOR push_bit 16 (drop_bit 16 vo) = vo AND 0xFFFF"
proof -
  have "(0xFFFF::int) = mask 16" by (simp add: mask_eq_exp_minus_1)
  then show ?thesis by (simp add: split_uoffset take_bit_eq_mask)
qed

lemma make_split: "push_bit 16 (drop_bit 16 (vo::int)) OR take_bit 16 vo = vo"
  apply (rule bit_eqI)
  apply (auto simp: bit_simps)
  done

lemma load_block_start:
  "load_block z r (Some c) = Inr r1 \<Longrightarrow> block_start_offset r1 = Some c"
  unfolding load_block_def bind_err_def Let_def h_seek_def h_tell_def
  by (auto split: sum.splits option.splits if_splits prod.splits error.splits)

lemma seek_result:
  assumes "seek z r vo = Inr (v, r1)"
  shows "v = vo \<and> block_start_offset r1 = Some (drop_bit 16 vo)
         \<and> within_block_offset r1 = nat (take_bit 16 vo)"
  using assms unfolding seek_def bind_err_def Let_def split_uoffset
  by (auto split: sum.splits if_splits dest: load_block_start)

text \<open>
  C4. For a virtual offset \<open>vo\<close> (a 64-bit unsigned integer), when \<^verbatim>\<open>seek(vo)\<close>
  returns normally it returns \<open>vo\<close>, and \<^verbatim>\<open>tell()\<close> on the reader it leaves returns
  \<open>vo\<close>.
\<close>

theorem seek_then_tell:
  assumes "seek z r vo = Inr (v, r1)" and "0 \<le> vo" and "vo < 2 ^ 64"
  shows "v = vo \<and> tell r1 = Inr vo"
proof -
  from seek_result [OF assms(1)] have v: "v = vo"
    and b: "block_start_offset r1 = Some (drop_bit 16 vo)"
    and w: "within_block_offset r1 = nat (take_bit 16 vo)" by simp_all
  have c: "drop_bit 16 vo < 2 ^ 48"
    using assms(2,3) by (simp add: drop_bit_eq_div)
  have u: "take_bit 16 vo < (2 ^ 16 :: int)" by (rule take_bit_int_less_exp)
  show ?thesis using v b w c u
    by (simp add: tell_def make_virtual_offset_def make_split)
qed

theorem seek_then_tell_witness:
  "\<forall>z. seek z (fixture_reader (\<lambda>tid start stop. None)) 10
          = Inr (10, (fixture_reader (\<lambda>tid start stop. None))\<lparr>within_block_offset := 10\<rparr>)
       \<and> tell ((fixture_reader (\<lambda>tid start stop. None))\<lparr>within_block_offset := 10\<rparr>) = Inr 10"
proof (intro allI)
  fix z
  let ?r = "fixture_reader (\<lambda>tid start stop. None)"
  have s: "seek z ?r 10 = Inr (10, ?r\<lparr>within_block_offset := 10\<rparr>)"
    by (simp add: seek_def bind_err_def fixture_reader_cursor)
  from seek_then_tell [OF s] s
  show "seek z ?r 10 = Inr (10, ?r\<lparr>within_block_offset := 10\<rparr>)
      \<and> tell (?r\<lparr>within_block_offset := 10\<rparr>) = Inr 10"
    by simp
qed

text \<open>The block a \<^verbatim>\<open>seek\<close> to the block offset \<open>c\<close> works on: the current block when
  \<open>c\<close> is its offset, the block \<^verbatim>\<open>_load_block(c)\<close> loads otherwise.\<close>

definition block_for_seek :: "zlib \<Rightarrow> reader \<Rightarrow> int \<Rightarrow> error + reader" where
  "block_for_seek z r c =
     (if Some c = block_start_offset r then Inr r else load_block z r (Some c))"

text \<open>
  C6. Let \<open>P\<close> be the payload of the block \<^verbatim>\<open>seek(vo)\<close> works on and \<open>u\<close> the low 16
  bits of \<open>vo\<close>. If \<open>u > len(P)\<close> then \<^verbatim>\<open>seek\<close> raises ValueError; the exemption for
  \<open>u = 0\<close> and \<open>len(P) = 0\<close> never applies to such a \<open>u\<close>. If \<open>u \<le> len(P)\<close> then
  \<^verbatim>\<open>seek\<close> returns \<open>vo\<close> with the cursor at \<open>u\<close>. In particular a seek to offset 42 of
  block 0, whose payload is 38 bytes long, raises ValueError.
\<close>

theorem seek_offset_beyond_payload:
  assumes "block_for_seek z r (drop_bit 16 vo) = Inr r1"
  shows "(vo AND 0xFFFF > int (length (buffer r1))
            \<longrightarrow> seek z r vo = Inl (ValueError ''Within offset but block size only''))
       \<and> (vo AND 0xFFFF \<le> int (length (buffer r1))
            \<longrightarrow> seek z r vo = Inr (vo, r1\<lparr>within_block_offset := nat (vo AND 0xFFFF)\<rparr>))"
proof (cases "Some (drop_bit 16 vo) = block_start_offset r")
  case True
  with assms have "r1 = r" by (simp add: block_for_seek_def)
  with True show ?thesis
    by (simp add: seek_def bind_err_def split_uoffset_and)
next
  case False
  with assms have l: "load_block z r (Some (drop_bit 16 vo)) = Inr r1"
    by (simp add: block_for_seek_def)
  from load_block_start [OF l] have "block_start_offset r1 = Some (drop_bit 16 vo)" .
  with False l show ?thesis
    by (simp add: seek_def bind_err_def split_uoffset_and)
qed

theorem seek_offset_beyond_payload_witness:
  "\<forall>z. seek z (fixture_reader (\<lambda>tid start stop. None)) 42
          = Inl (ValueError ''Within offset but block size only'')
       \<and> seek z (fixture_reader (\<lambda>tid start stop. None)) 38
          = Inr (38, (fixture_reader (\<lambda>tid start stop. None))\<lparr>within_block_offset := 38\<rparr>)"
proof (intro allI)
  fix z
  let ?r = "fixture_reader (\<lambda>tid start stop. None)"
  have b42: "block_for_seek z ?r (drop_bit 16 42) = Inr ?r"
    by (simp add: block_for_seek_def fixture_reader_cursor)
  have b38: "block_for_seek z ?r (drop_bit 16 38) = Inr ?r"
    by (simp add: block_for_seek_def fixture_reader_cursor)
  have u42: "(42::int) AND 0xFFFF = 42" and u38: "(38::int) AND 0xFFFF = 38" by simp_all
  from seek_offset_beyond_payload [OF b42] seek_offset_beyond_payload [OF b38]
  show "seek z ?r 42 = Inl (ValueError ''Within offset but block size only'')
      \<and> seek z ?r 38 = Inr (38, ?r\<lparr>within_block_offset := 38\<rparr>)"
    by (simp add: u42 u38 fixture_reader_cursor)
qed

subsection \<open>Properties of the truncation check\<close>

lemma check_truncation_marker:
  assumes "drop (length (contents h) - 28) (contents h) = bgzf_eof"
  shows "check_truncation h = Inr (False, h)"
proof -
  from assms have "length (drop (length (contents h) - 28) (contents h)) = 28"
    by (simp add: bgzf_eof_def)
  then have "28 \<le> length (contents h)" by simp
  then show ?thesis using assms
    by (simp add: check_truncation_def h_seek_end_def h_seek_def h_read_def h_tell_def
        bind_err_def Let_def nat_diff_distrib)
qed

lemma check_truncation_no_marker:
  "drop (length (contents h) - 28) (contents h) \<noteq> bgzf_eof \<Longrightarrow> \<exists>e. check_truncation h = Inl e"
  by (auto simp add: check_truncation_def h_seek_end_def h_seek_def h_read_def h_tell_def
        bind_err_def Let_def nat_diff_distrib)

text \<open>The EOF marker cut off a byte short, and the same 27 bytes after a zero byte.\<close>

definition no_marker_file :: bytes where
  "no_marker_file =
     [0x1f, 0x8b, 0x08, 0x04, 0x00, 0x00, 0x00, 0x00,
      0x00, 0xff, 0x06, 0x00, 0x42, 0x43, 0x02, 0x00,
      0x1b, 0x00, 0x03, 0x00, 0x00, 0x00, 0x00, 0x00,
      0x00, 0x00, 0x00]"

text \<open>
  C8, as stated, fails. The claim: with the default options a missing EOF marker is
  reported as a warning and the construction completes. With the default
  \<^verbatim>\<open>ignore_truncation=False\<close> the constructor runs the truncation check and a missing
  marker ends the construction with an exception: on a file of 27 bytes the seek to 28
  bytes before the end raises OSError, on a file of 28 bytes that are not the marker the
  check raises.
\<close>

theorem reader_init_default_fatal:
  "reader_init 128 ''rb'' False \<lparr>contents = no_marker_file, position = 0\<rparr> = Inl OSError
   \<and> reader_init 128 ''rb'' False \<lparr>contents = 0x00 # no_marker_file, position = 0\<rparr>
       = Inl AttributeError"
  by (simp add: reader_init_def check_truncation_def h_seek_end_def h_seek_def h_read_def
      h_tell_def bind_err_def Let_def bgzf_eof_def no_marker_file_def)

text \<open>
  C8, amended. For a file opened in binary mode with a cache of at least one block: with
  the default \<^verbatim>\<open>ignore_truncation=False\<close>, a file whose last 28 bytes are not the EOF
  marker ends the construction with an exception, and a file that ends with the marker
  passes the check with its handle where it was; with \<^verbatim>\<open>ignore_truncation=True\<close> the
  check is not run and the construction goes on whatever the file ends with.
\<close>

theorem reader_init_truncation_check:
  assumes "1 \<le> mc" and "CHR ''b'' \<in> set mode \<or> CHR ''B'' \<in> set mode"
  shows "(drop (length (contents h) - 28) (contents h) \<noteq> bgzf_eof
            \<longrightarrow> (\<exists>e. reader_init mc mode False h = Inl e))
       \<and> (drop (length (contents h) - 28) (contents h) = bgzf_eof
            \<longrightarrow> reader_init mc mode False h = Inr (\<lparr>max_cache = nat mc, entries = []\<rparr>, h))
       \<and> reader_init mc mode True h = Inr (\<lparr>max_cache = nat mc, entries = []\<rparr>, h)"
  using assms check_truncation_no_marker [of h] check_truncation_marker [of h]
  by (auto simp add: reader_init_def bind_err_def Let_def)

theorem reader_init_truncation_check_witness:
  "(\<exists>e. reader_init 128 ''rb'' False \<lparr>contents = 0x00 # no_marker_file, position = 0\<rparr> = Inl e)
   \<and> reader_init 128 ''rb'' False \<lparr>contents = bgzf_eof, position = 0\<rparr>
       = Inr (\<lparr>max_cache = 128, entries = []\<rparr>, \<lparr>contents = bgzf_eof, position = 0\<rparr>)
   \<and> reader_init 128 ''rb'' True \<lparr>contents = 0x00 # no_marker_file, position = 0\<rparr>
       = Inr (\<lparr>max_cache = 128, entries = []\<rparr>,
              \<lparr>contents = 0x00 # no_marker_file, position = 0\<rparr>)"
proof -
  have m: "CHR ''b'' \<in> set ''rb'' \<or> CHR ''B'' \<in> set ''rb''" by simp
  have c: "(1::int) \<le> 128" by simp
  have n: "drop (length (contents \<lparr>contents = 0x00 # no_marker_file, position = 0\<rparr>) - 28)
             (contents \<lparr>contents = 0x00 # no_marker_file, position = 0\<rparr>) \<noteq> bgzf_eof"
    by (simp add: no_marker_file_def bgzf_eof_def)
  have e: "drop (length (contents \<lparr>contents = bgzf_eof, position = 0\<rparr>) - 28)
             (contents \<lparr>contents = bgzf_eof, position = 0\<rparr>) = bgzf_eof"
    by (simp add: bgzf_eof_def)
  from reader_init_truncation_check [OF c m, of "\<lparr>contents = 0x00 # no_marker_file, position = 0\<rparr>"] n
       reader_init_truncation_check [OF c m, of "\<lparr>contents = bgzf_eof, position = 0\<rparr>"] e
  show ?thesis by simp
qed

subsection \<open>Properties of struct and of the file handle\<close>

text \<open>Unpacking what was packed gives the value back, for a value in the range of its
  format; reading the bytes that lie at the position of the handle returns them and
  leaves the handle behind them.\<close>

lemma length_le_bytes: "length (le_bytes n v) = n"
  by (simp add: le_bytes_def)

lemma le_bytes_2: "le_bytes 2 v = [word_of_int v, word_of_int (v div 256)]"
  by (simp add: le_bytes_def numeral_2_eq_2 upt_rec)

lemma le_bytes_4:
  "le_bytes 4 v = [word_of_int v, word_of_int (v div 256), word_of_int (v div 65536),
                   word_of_int (v div 16777216)]"
  by (simp add: le_bytes_def upt_rec numeral_eq_Suc)

lemma uint_byte_of_int: "uint (word_of_int v :: byte) = v mod 256"
  by (simp add: uint_word_of_int take_bit_eq_mod)

lemma le_uint_Cons: "le_uint (b # bs) = uint b + 256 * le_uint bs"
  by (simp add: le_uint_def)

lemma le_bytes_Suc: "le_bytes (Suc n) v = word_of_int v # le_bytes n (v div 256)"
proof -
  have "[0 ..< Suc n] = 0 # map Suc [0 ..< n]"
    by (simp add: upt_conv_Cons map_Suc_upt del: upt_Suc)
  moreover have "v div 256 div 256 ^ i = v div 256 ^ Suc i" for i
    by (simp add: zdiv_zmult2_eq)
  ultimately show ?thesis
    by (simp add: le_bytes_def comp_def del: upt_Suc)
qed

lemma le_uint_le_bytes: "le_uint (le_bytes n v) = v mod 256 ^ n"
proof (induction n arbitrary: v)
  case 0
  show ?case by (simp add: le_bytes_def le_uint_def)
next
  case (Suc n)
  have "v mod (256 * 256 ^ n) = 256 * (v div 256 mod 256 ^ n) + v mod 256"
    by (rule zmod_zmult2_eq) simp
  with Suc show ?case
    by (simp add: le_bytes_Suc le_uint_Cons uint_byte_of_int)
qed

lemma le_uint_le_bytes_2: "0 \<le> v \<Longrightarrow> v < 65536 \<Longrightarrow> le_uint (le_bytes 2 v) = v"
  by (simp add: le_uint_le_bytes)

lemma le_uint_le_bytes_4: "0 \<le> v \<Longrightarrow> v < 4294967296 \<Longrightarrow> le_uint (le_bytes 4 v) = v"
  by (simp add: le_uint_le_bytes)

lemma h_read_prefix:
  assumes "drop (position h) (contents h) = a @ rest"
  shows "h_read h (int (length a)) = Inr (a, h\<lparr>position := position h + length a\<rparr>)"
  using assms by (simp add: h_read_def Let_def)

lemma drop_after_prefix:
  assumes "drop (position h) (contents h) = a @ rest"
  shows "drop (position (h\<lparr>position := position h + length a\<rparr>))
              (contents (h\<lparr>position := position h + length a\<rparr>)) = rest"
proof -
  have "drop (length a + position h) (contents h) = drop (length a) (drop (position h) (contents h))"
    by (simp only: drop_drop)
  with assms show ?thesis by (simp add: add.commute)
qed

subsection \<open>Properties of the block codec\<close>

text \<open>
  The layout of a block (spec 6, the table of the BGZF block): the 16 bytes that
  \<^verbatim>\<open>_bgzf_metaheader\<close> reads carry the required field values and the extra-field
  length \<open>XLEN\<close>; they are followed by BSIZE (2 bytes), the deflated payload, CRC32
  (4 bytes) and ISIZE (4 bytes).
\<close>

definition valid_metaheader :: "bytes \<Rightarrow> int \<Rightarrow> bool" where
  "valid_metaheader meta XLEN \<longleftrightarrow>
     length meta = 16
     \<and> meta ! 0 = 0x1f \<and> meta ! 1 = 0x8b \<and> meta ! 2 = 8 \<and> meta ! 3 = 4
     \<and> le_uint (take 2 (drop 10 meta)) = XLEN
     \<and> meta ! 12 = 0x42 \<and> meta ! 13 = 0x43 \<and> le_uint (take 2 (drop 14 meta)) = 2"

lemma bgzf_metaheader_valid:
  assumes "drop (position h) (contents h) = meta @ rest" and "valid_metaheader meta XLEN"
  shows "\<exists>fields. bgzf_metaheader h = Inr ((fields, meta), h\<lparr>position := position h + 16\<rparr>)
           \<and> length fields = 11 \<and> fields ! 7 = XLEN"
proof -
  from assms(2) have len: "length meta = 16" by (simp add: valid_metaheader_def)
  from h_read_prefix [OF assms(1)] len
  have rd: "h_read h 16 = Inr (meta, h\<lparr>position := position h + 16\<rparr>)" by simp
  show ?thesis
    using assms(2) unfolding bgzf_metaheader_def rd
    by (clarsimp simp add: valid_metaheader_def bind_err_def unpack_bgzf_metaheader_def Let_def)
qed

lemma load_bgzf_block_layout:
  assumes layout: "drop (position h) (contents h)
             = meta @ le_bytes 2 BSIZE @ cdata @ le_bytes 4 CRC32 @ le_bytes 4 ISIZE @ post"
    and meta: "valid_metaheader meta XLEN"
    and bsize: "0 \<le> BSIZE" "BSIZE < 65536"
    and d: "int (length cdata) = BSIZE - XLEN - 19"
    and crc: "0 \<le> CRC32" "CRC32 < 4294967296"
    and isize: "0 \<le> ISIZE" "ISIZE < 4294967296"
    and inflated: "decompress z cdata = Some data"
  shows "load_bgzf_block z h =
           (let c = (if crc32 z data < 0 then crc32 z data mod 2 ^ 32 else crc32 z data)
            in if CRC32 \<noteq> c then Inl (ValueError ''CRCs are not equal'')
               else if ISIZE \<noteq> int (length data)
               then Inl (ValueError ''unequal uncompressed data size'')
               else Inr ((BSIZE + 1, data),
                         h\<lparr>position := position h + 26 + length cdata\<rparr>))"
proof -
  let ?h1 = "h\<lparr>position := position h + 16\<rparr>"
  let ?h2 = "h\<lparr>position := position h + 18\<rparr>"
  let ?h3 = "h\<lparr>position := position h + 18 + length cdata\<rparr>"
  let ?h4 = "h\<lparr>position := position h + 26 + length cdata\<rparr>"
  from meta have len: "length meta = 16" by (simp add: valid_metaheader_def)
  from bgzf_metaheader_valid [OF layout meta] obtain fields where
    m: "bgzf_metaheader h = Inr ((fields, meta), ?h1)" and
    fl: "length fields = 11" and fx: "fields ! 7 = XLEN" by blast
  have r1: "drop (position ?h1) (contents ?h1)
              = le_bytes 2 BSIZE @ cdata @ le_bytes 4 CRC32 @ le_bytes 4 ISIZE @ post"
    using drop_after_prefix [OF layout] len by simp
  have rd2: "h_read ?h1 2 = Inr (le_bytes 2 BSIZE, ?h2)"
    using h_read_prefix [OF r1] by (simp add: length_le_bytes)
  have r2: "drop (position ?h2) (contents ?h2)
              = cdata @ le_bytes 4 CRC32 @ le_bytes 4 ISIZE @ post"
    using drop_after_prefix [OF r1] by (simp add: length_le_bytes ac_simps)
  have rd3: "h_read ?h2 (BSIZE - XLEN - 19) = Inr (cdata, ?h3)"
    using h_read_prefix [OF r2] d by simp
  have r3: "drop (position ?h3) (contents ?h3) = (le_bytes 4 CRC32 @ le_bytes 4 ISIZE) @ post"
    using drop_after_prefix [OF r2] by (simp add: ac_simps)
  have rd4: "h_read ?h3 8 = Inr (le_bytes 4 CRC32 @ le_bytes 4 ISIZE, ?h4)"
    using h_read_prefix [OF r3] by (simp add: length_le_bytes)
  have u2: "unpack_H (le_bytes 2 BSIZE) = Inr BSIZE"
    using bsize by (simp add: unpack_H_def length_le_bytes le_uint_le_bytes_2)
  have u4: "unpack_gzip_integrity (le_bytes 4 CRC32 @ le_bytes 4 ISIZE) = Inr (CRC32, ISIZE)"
    using crc isize
    by (simp add: unpack_gzip_integrity_def length_le_bytes le_uint_le_bytes_4)
  show ?thesis
    unfolding load_bgzf_block_def m
    by (simp add: bind_err_def Let_def fl fx rd2 u2 rd3 inflated rd4 u4)
qed

text \<open>
  A stand-in for zlib to run the codec on concrete bytes: the deflater emits the payload
  as one stored block of raw DEFLATE (final-block bit, block type 00, LEN, NLEN, the
  bytes), the inflater reads such a block and rejects anything else, and \<open>crc32\<close> knows
  the CRC-32 of the payloads used here (\<^verbatim>\<open>zlib.crc32(b'BAD') == 344750961\<close>,
  \<^verbatim>\<open>zlib.crc32(b'') == 0\<close>).
\<close>

definition stored_compress :: "int \<Rightarrow> bytes \<Rightarrow> bytes" where
  "stored_compress level block =
     0x01 # le_bytes 2 (int (length block)) @ le_bytes 2 (65535 - int (length block)) @ block"

definition stored_decompress :: "bytes \<Rightarrow> bytes option" where
  "stored_decompress bs =
     (case bs of
        b # l0 # l1 # n0 # n1 # rest \<Rightarrow>
          if b = 0x01 \<and> le_uint [l0, l1] + le_uint [n0, n1] = 65535
             \<and> le_uint [l0, l1] \<le> int (length rest)
          then Some (take (nat (le_uint [l0, l1])) rest)
          else None
      | _ \<Rightarrow> None)"

definition table_crc32 :: "bytes \<Rightarrow> int" where
  "table_crc32 bs = (if bs = [0x42, 0x41, 0x44] then 344750961 else 0)"

definition stored_zlib :: zlib where
  "stored_zlib =
     \<lparr>decompress = stored_decompress, compress = stored_compress, crc32 = table_crc32\<rparr>"

definition bad_block :: bytes where
  "bad_block =
     [0x1f, 0x8b, 0x08, 0x04, 0x00, 0x00, 0x00, 0x00,
      0x00, 0xff, 0x06, 0x00, 0x42, 0x43, 0x02, 0x00,
      0x21, 0x00,
      0x01, 0x03, 0x00, 0xfc, 0xff, 0x42, 0x41, 0x44,
      0x71, 0x7b, 0x8c, 0x14,
      0x03, 0x00, 0x00, 0x00]"

lemma stored_roundtrip_BAD:
  "decompress stored_zlib (compress stored_zlib 6 [0x42, 0x41, 0x44]) = Some [0x42, 0x41, 0x44]"
  by (simp add: stored_zlib_def stored_compress_def stored_decompress_def le_bytes_2
      le_uint_def)

lemma write_block_BAD: "write_block stored_zlib 6 [0x42, 0x41, 0x44] = Inr bad_block"
  by (simp add: write_block_def stored_zlib_def stored_compress_def table_crc32_def
      bind_err_def Let_def pack_H_def pack_I_def le_bytes_2 le_bytes_4 bgzf_header_def
      bad_block_def)

lemma valid_bgzf_header: "valid_metaheader bgzf_header 6"
  by (simp add: valid_metaheader_def bgzf_header_def le_uint_def)

lemma and_ffffffff: "(c::int) AND 0xffffffff = c mod 2 ^ 32"
proof -
  have m: "(0xffffffff::int) = mask 32" by (simp add: mask_eq_exp_minus_1)
  show ?thesis by (simp only: m take_bit_eq_mask [symmetric] take_bit_eq_mod)
qed

text \<open>
  C7. For a block laid out as in the format whose deflated payload inflates to \<open>data\<close>,
  zlib's \<open>crc32\<close> being a value of at most 32 bits: if the stored CRC32 differs from
  the CRC32 of \<open>data\<close> (as an unsigned 32-bit value) decoding raises
  ValueError('CRCs are not equal'); if the stored ISIZE differs from the length of
  \<open>data\<close> decoding raises ValueError; when both match decoding returns
  (BSIZE + 1, \<open>data\<close>) and has consumed the block.
\<close>

theorem load_bgzf_block_integrity:
  assumes "drop (position h) (contents h)
             = meta @ le_bytes 2 BSIZE @ cdata @ le_bytes 4 CRC32 @ le_bytes 4 ISIZE @ post"
    and "valid_metaheader meta XLEN"
    and "0 \<le> BSIZE" and "BSIZE < 65536"
    and "int (length cdata) = BSIZE - XLEN - 19"
    and "0 \<le> CRC32" and "CRC32 < 4294967296"
    and "0 \<le> ISIZE" and "ISIZE < 4294967296"
    and "decompress z cdata = Some data"
    and "crc32 z data < 4294967296"
  shows "(CRC32 \<noteq> crc32 z data mod 2 ^ 32
            \<longrightarrow> load_bgzf_block z h = Inl (ValueError ''CRCs are not equal''))
       \<and> (ISIZE \<noteq> int (length data)
            \<longrightarrow> (\<exists>msg. load_bgzf_block z h = Inl (ValueError msg)))
       \<and> (CRC32 = crc32 z data mod 2 ^ 32 \<and> ISIZE = int (length data)
            \<longrightarrow> load_bgzf_block z h
                  = Inr ((BSIZE + 1, data), h\<lparr>position := position h + 26 + length cdata\<rparr>))"
proof -
  have c: "(if crc32 z data < 0 then crc32 z data mod 2 ^ 32 else crc32 z data)
             = crc32 z data mod 2 ^ 32"
    using assms(11) by simp
  show ?thesis
    unfolding load_bgzf_block_layout [OF assms(1-10)] Let_def c by simp
qed

definition stored_BAD :: bytes where
  "stored_BAD = [0x01, 0x03, 0x00, 0xfc, 0xff, 0x42, 0x41, 0x44]"

theorem load_bgzf_block_integrity_witness:
  "load_bgzf_block stored_zlib
     \<lparr>contents = bgzf_header @ le_bytes 2 33 @ stored_BAD @ le_bytes 4 0 @ le_bytes 4 3,
      position = 0\<rparr> = Inl (ValueError ''CRCs are not equal'')
   \<and> (\<exists>msg. load_bgzf_block stored_zlib
        \<lparr>contents = bgzf_header @ le_bytes 2 33 @ stored_BAD @ le_bytes 4 344750961
                      @ le_bytes 4 4,
         position = 0\<rparr> = Inl (ValueError msg))
   \<and> load_bgzf_block stored_zlib
        \<lparr>contents = bgzf_header @ le_bytes 2 33 @ stored_BAD @ le_bytes 4 344750961
                      @ le_bytes 4 3,
         position = 0\<rparr>
       = Inr ((34, [0x42, 0x41, 0x44]),
              \<lparr>contents = bgzf_header @ le_bytes 2 33 @ stored_BAD @ le_bytes 4 344750961
                            @ le_bytes 4 3,
               position = 34\<rparr>)"
proof -
  let ?file = "\<lambda>c i. bgzf_header @ le_bytes 2 33 @ stored_BAD @ le_bytes 4 c @ le_bytes 4 i"
  have lay: "drop (position \<lparr>contents = ?file c i, position = 0\<rparr>)
               (contents \<lparr>contents = ?file c i, position = 0\<rparr>)
             = bgzf_header @ le_bytes 2 33 @ stored_BAD @ le_bytes 4 c @ le_bytes 4 i @ []"
    for c i by simp
  have d: "int (length stored_BAD) = 33 - 6 - 19" by (simp add: stored_BAD_def)
  have inf: "decompress stored_zlib stored_BAD = Some [0x42, 0x41, 0x44]"
    by (simp add: stored_zlib_def stored_decompress_def stored_BAD_def le_uint_def)
  have crc: "crc32 stored_zlib [0x42, 0x41, 0x44] = 344750961"
    by (simp add: stored_zlib_def table_crc32_def)
  have n: "length stored_BAD = 8" by (simp add: stored_BAD_def)
  from load_bgzf_block_integrity [OF lay valid_bgzf_header _ _ d _ _ _ _ inf, of 0 3]
  have a: "load_bgzf_block stored_zlib \<lparr>contents = ?file 0 3, position = 0\<rparr>
             = Inl (ValueError ''CRCs are not equal'')"
    by (simp add: crc)
  from load_bgzf_block_integrity [OF lay valid_bgzf_header _ _ d _ _ _ _ inf, of 344750961 4]
  have b: "\<exists>msg. load_bgzf_block stored_zlib \<lparr>contents = ?file 344750961 4, position = 0\<rparr>
             = Inl (ValueError msg)"
    by (simp add: crc)
  from load_bgzf_block_integrity [OF lay valid_bgzf_header _ _ d _ _ _ _ inf, of 344750961 3]
  have c: "load_bgzf_block stored_zlib \<lparr>contents = ?file 344750961 3, position = 0\<rparr>
             = Inr ((34, [0x42, 0x41, 0x44]), \<lparr>contents = ?file 344750961 3, position = 34\<rparr>)"
    by (simp add: crc n)
  from a b c show ?thesis by simp
qed

text \<open>
  Decoding what \<^verbatim>\<open>_write_block\<close> has written: when it writes the bytes \<open>blk\<close> for the
  payload \<open>P\<close> and zlib's inflater inverts its deflater on \<open>P\<close>, decoding \<open>blk\<close>
  returns \<open>P\<close> and the number of bytes of \<open>blk\<close>, and leaves the handle behind the
  block.
\<close>

lemma load_written_block:
  assumes w: "write_block z level P = Inr blk"
    and inv: "decompress z (compress z level P) = Some P"
    and layout: "drop (position h) (contents h) = blk @ post"
  shows "length P \<le> 65536
       \<and> load_bgzf_block z h
           = Inr ((int (length blk), P), h\<lparr>position := position h + length blk\<rparr>)"
proof -
  let ?c = "compress z level P"
  let ?crc = "crc32 z P"
  from w have lp: "length P \<le> 65536" and lc: "int (length ?c) + 25 \<le> 65535"
    and crc: "?crc < 0 \<or> ?crc \<le> 4294967295"
    and blk: "blk = bgzf_header @ le_bytes 2 (int (length ?c) + 25) @ ?c
                      @ le_bytes 4 (?crc AND 0xffffffff) @ le_bytes 4 (int (length P)) @ []"
    by (auto simp add: write_block_def bind_err_def Let_def pack_H_def pack_I_def pack_i_def
        split: if_splits)
  have lay: "drop (position h) (contents h)
               = bgzf_header @ le_bytes 2 (int (length ?c) + 25) @ ?c
                 @ le_bytes 4 (?crc AND 0xffffffff) @ le_bytes 4 (int (length P)) @ post"
    using layout blk by simp
  have stored: "0 \<le> ?crc AND 0xffffffff" "?crc AND 0xffffffff < 4294967296"
    by (simp_all add: and_ffffffff)
  have norm: "(if ?crc < 0 then ?crc mod 2 ^ 32 else ?crc) = ?crc AND 0xffffffff"
    using crc by (auto simp add: and_ffffffff)
  have len: "length blk = 26 + length ?c"
    using blk by (simp add: length_le_bytes bgzf_header_def)
  have "load_bgzf_block z h
          = Inr ((int (length ?c) + 25 + 1, P), h\<lparr>position := position h + 26 + length ?c\<rparr>)"
    using load_bgzf_block_layout [OF lay valid_bgzf_header _ _ _ stored _ _ inv] lc lp norm
    by (simp add: Let_def)
  with lp len show ?thesis by (simp add: ac_simps)
qed

text \<open>
  When \<^verbatim>\<open>_write_block\<close> writes a block and when it raises. BSIZE is packed as an
  unsigned 16-bit field, so the deflated payload must not be longer than
  \<open>65535 - 25 = 65510\<close> bytes; \<open>crc32\<close> is a 32-bit value, signed or unsigned.
\<close>

lemma write_block_writes:
  assumes "length P \<le> 65536" and "length (compress z level P) \<le> 65510"
    and "- 2147483648 \<le> crc32 z P" and "crc32 z P \<le> 4294967295"
  shows "\<exists>blk. write_block z level P = Inr blk"
proof -
  have "crc32 z P mod 4294967296 < 4294967296" by simp
  then have "crc32 z P mod 4294967296 \<le> 4294967295" by linarith
  with assms show ?thesis
    by (simp add: write_block_def bind_err_def Let_def pack_H_def pack_I_def pack_i_def
        and_ffffffff)
qed

lemma write_block_raises:
  assumes "65510 < length (compress z level P)"
  shows "\<exists>e. write_block z level P = Inl e"
  using assms
  by (auto simp add: write_block_def bind_err_def Let_def pack_H_def split: sum.splits)

text \<open>
  C3, as stated, fails. The claim: for every payload of at most 65536 bytes, decoding the
  block produced by encoding it returns the payload. For a payload the deflater does not
  shrink no block is produced: 65510 bytes deflated as a stored block (what zlib does
  at level 0, and on data it cannot compress) are longer than 65510 bytes, and
  \<^verbatim>\<open>struct.pack("<H", len(compressed) + 25)\<close> raises \<^verbatim>\<open>struct.error\<close>.
\<close>

theorem write_block_raises_on_long_deflate:
  "length (replicate 65510 (0 :: byte)) \<le> 65536
   \<and> write_block stored_zlib 0 (replicate 65510 0) = Inl StructError"
proof -
  have "length (replicate 65510 (0 :: byte)) \<noteq> length [0x42 :: byte, 0x41, 0x44]"
    by simp
  then have ne: "replicate 65510 (0 :: byte) \<noteq> [0x42, 0x41, 0x44]"
    by (metis (no_types))
  show ?thesis
    by (simp add: write_block_def stored_zlib_def stored_compress_def table_crc32_def ne
        length_le_bytes bind_err_def Let_def pack_H_def pack_I_def)
qed

text \<open>
  C3, amended. For every payload \<open>P\<close> with \<open>len(P) \<le> 65536\<close>, zlib's \<open>crc32\<close> being
  a 32-bit value and its inflater inverting its deflater on \<open>P\<close>: when the deflated
  payload is at most 65510 bytes long, \<^verbatim>\<open>_write_block\<close> writes a block, and decoding that
  block (wherever it lies in a file) returns \<open>P\<close> and reports as raw block length
  (BSIZE + 1) the number of bytes written; when the deflated payload is longer,
  \<^verbatim>\<open>_write_block\<close> raises and writes nothing.
\<close>

theorem write_block_then_load:
  assumes "length P \<le> 65536"
    and "- 2147483648 \<le> crc32 z P" and "crc32 z P \<le> 4294967295"
    and "decompress z (compress z level P) = Some P"
  shows "(length (compress z level P) \<le> 65510 \<longrightarrow>
           (\<exists>blk. write_block z level P = Inr blk
              \<and> (\<forall>h post. drop (position h) (contents h) = blk @ post \<longrightarrow>
                    load_bgzf_block z h
                      = Inr ((int (length blk), P),
                             h\<lparr>position := position h + length blk\<rparr>))))
       \<and> (65510 < length (compress z level P) \<longrightarrow> (\<exists>e. write_block z level P = Inl e))"
proof (intro conjI impI)
  assume "length (compress z level P) \<le> 65510"
  from write_block_writes [OF assms(1) this assms(2,3)]
  obtain blk where w: "write_block z level P = Inr blk" by blast
  have "load_bgzf_block z h
          = Inr ((int (length blk), P), h\<lparr>position := position h + length blk\<rparr>)"
    if "drop (position h) (contents h) = blk @ post" for h post
    using load_written_block [OF w assms(4) that] by simp
  with w show "\<exists>blk. write_block z level P = Inr blk
              \<and> (\<forall>h post. drop (position h) (contents h) = blk @ post \<longrightarrow>
                    load_bgzf_block z h
                      = Inr ((int (length blk), P),
                             h\<lparr>position := position h + length blk\<rparr>))"
    by blast
next
  assume "65510 < length (compress z level P)"
  then show "\<exists>e. write_block z level P = Inl e" by (rule write_block_raises)
qed

theorem write_block_then_load_witness:
  "write_block stored_zlib 6 [0x42, 0x41, 0x44] = Inr bad_block
   \<and> load_bgzf_block stored_zlib \<lparr>contents = bad_block, position = 0\<rparr>
       = Inr ((34, [0x42, 0x41, 0x44]), \<lparr>contents = bad_block, position = 34\<rparr>)"
proof -
  have p: "length [0x42 :: byte, 0x41, 0x44] \<le> 65536" by simp
  have c: "- 2147483648 \<le> crc32 stored_zlib [0x42, 0x41, 0x44]"
          "crc32 stored_zlib [0x42, 0x41, 0x44] \<le> 4294967295"
    by (simp_all add: stored_zlib_def table_crc32_def)
  have s: "length (compress stored_zlib 6 [0x42, 0x41, 0x44]) \<le> 65510"
    by (simp add: stored_zlib_def stored_compress_def length_le_bytes)
  from write_block_then_load [OF p c stored_roundtrip_BAD] s
  obtain blk where w: "write_block stored_zlib 6 [0x42, 0x41, 0x44] = Inr blk"
    and l: "\<forall>h post. drop (position h) (contents h) = blk @ post \<longrightarrow>
              load_bgzf_block stored_zlib h
                = Inr ((int (length blk), [0x42, 0x41, 0x44]),
                       h\<lparr>position := position h + length blk\<rparr>)"
    by blast
  from w write_block_BAD have b: "blk = bad_block" by simp
  have n: "length bad_block = 34" by (simp add: bad_block_def)
  from l [rule_format, of "\<lparr>contents = bad_block, position = 0\<rparr>" "[]"] b n write_block_BAD
  show ?thesis by simp
qed

lemma load_bgzf_block_short_length:
  assumes layout: "drop (position h) (contents h) = meta @ le_bytes 2 BSIZE @ rest"
    and meta: "valid_metaheader meta XLEN"
    and bsize: "0 \<le> BSIZE" "BSIZE < 65536"
  shows "BSIZE - XLEN - 19 < - 1 \<Longrightarrow>
           load_bgzf_block z h = Inl (ValueError ''read length must be non-negative or -1'')"
    and "BSIZE - XLEN - 19 = - 1 \<Longrightarrow>
           load_bgzf_block z h
             = (case decompress z rest of None \<Rightarrow> Inl ZlibError | Some data \<Rightarrow> Inl StructError)"
proof -
  let ?h1 = "h\<lparr>position := position h + 16\<rparr>"
  let ?h2 = "h\<lparr>position := position h + 18\<rparr>"
  let ?h3 = "h\<lparr>position := position h + 18 + length rest\<rparr>"
  from meta have len: "length meta = 16" by (simp add: valid_metaheader_def)
  from bgzf_metaheader_valid [OF layout meta] obtain fields where
    m: "bgzf_metaheader h = Inr ((fields, meta), ?h1)" and
    fl: "length fields = 11" and fx: "fields ! 7 = XLEN" by blast
  have r1: "drop (position ?h1) (contents ?h1) = le_bytes 2 BSIZE @ rest"
    using drop_after_prefix [OF layout] len by simp
  have rd2: "h_read ?h1 2 = Inr (le_bytes 2 BSIZE, ?h2)"
    using h_read_prefix [OF r1] by (simp add: length_le_bytes)
  have r2: "drop (position h + 18) (contents h) = rest"
    using drop_after_prefix [OF r1] by (simp add: length_le_bytes ac_simps)
  have u2: "unpack_H (le_bytes 2 BSIZE) = Inr BSIZE"
    using bsize by (simp add: unpack_H_def length_le_bytes le_uint_le_bytes_2)
  {
    assume "BSIZE - XLEN - 19 < - 1"
    then have rdn: "h_read ?h2 (BSIZE - XLEN - 19)
                      = Inl (ValueError ''read length must be non-negative or -1'')"
      by (simp add: h_read_def)
    show "load_bgzf_block z h = Inl (ValueError ''read length must be non-negative or -1'')"
      unfolding load_bgzf_block_def m
      by (simp add: bind_err_def Let_def fl fx rd2 u2 rdn)
  }
  assume minus_one: "BSIZE - XLEN - 19 = - 1"
  have rd3: "h_read ?h2 (BSIZE - XLEN - 19) = Inr (rest, ?h3)"
    unfolding minus_one using r2 by (simp add: h_read_def Let_def)
  have "drop (position h + 18 + length rest) (contents h) = drop (length rest) rest"
    using r2 by (metis add.commute drop_drop)
  then have rd4: "h_read ?h3 8 = Inr ([], ?h3)"
    by (simp add: h_read_def Let_def)
  show "load_bgzf_block z h
             = (case decompress z rest of None \<Rightarrow> Inl ZlibError | Some data \<Rightarrow> Inl StructError)"
    unfolding load_bgzf_block_def m
    by (simp add: bind_err_def Let_def fl fx rd2 u2 rd3 rd4 unpack_gzip_integrity_def
        split: option.split)
qed

text \<open>
  C5, amended. For a block whose header fields yield a negative
  \<open>d = BSIZE - XLEN - 19\<close>, decoding fails, though not by a check of \<open>d\<close>: for
  \<open>d < -1\<close> the read of \<open>d\<close> bytes raises ValueError before anything is inflated;
  for \<open>d = -1\<close> the rest of the file is read and handed to the inflater, and decoding
  then fails with zlib's error or, when the inflater accepts the bytes, with
  \<^verbatim>\<open>struct.error\<close>.
\<close>

theorem load_bgzf_block_negative_length:
  assumes "drop (position h) (contents h) = meta @ le_bytes 2 BSIZE @ rest"
    and "valid_metaheader meta XLEN"
    and "0 \<le> BSIZE" and "BSIZE < 65536"
    and "BSIZE - XLEN - 19 < 0"
  shows "(BSIZE - XLEN - 19 < - 1 \<longrightarrow>
            load_bgzf_block z h = Inl (ValueError ''read length must be non-negative or -1''))
       \<and> (BSIZE - XLEN - 19 = - 1 \<longrightarrow>
            load_bgzf_block z h
              = (case decompress z rest of None \<Rightarrow> Inl ZlibError | Some data \<Rightarrow> Inl StructError))
       \<and> (\<exists>e. load_bgzf_block z h = Inl e)"
proof -
  note l = load_bgzf_block_short_length [OF assms(1-4), of z]
  have "\<exists>e. load_bgzf_block z h = Inl e"
  proof (cases "BSIZE - XLEN - 19 < - 1")
    case True
    with l(1) show ?thesis by simp
  next
    case False
    with assms(5) have "BSIZE - XLEN - 19 = - 1" by simp
    with l(2) show ?thesis by (simp split: option.split)
  qed
  with l show ?thesis by simp
qed

definition minus_one_file :: bytes where
  "minus_one_file =
     [0x1f, 0x8b, 0x08, 0x04, 0x00, 0x00, 0x00, 0x00,
      0x00, 0xff, 0x06, 0x00, 0x42, 0x43, 0x02, 0x00,
      0x18, 0x00,
      0xff, 0xff, 0xff]"

lemma minus_one_file_layout:
  "minus_one_file = bgzf_header @ le_bytes 2 24 @ [0xff, 0xff, 0xff]"
  by (simp add: minus_one_file_def bgzf_header_def le_bytes_2)

text \<open>
  C5, as stated, fails. The claim: a negative \<open>d = BSIZE - XLEN - 19\<close> makes decoding
  fail with the malformed-block error, and nothing is inflated. The code has no check of
  \<open>d\<close>. In the file below BSIZE is 24 and XLEN is 6, so \<open>d = -1\<close>: \<^verbatim>\<open>handle.read(-1)\<close>
  returns the rest of the file, the three bytes ff ff ff, which is handed to the
  inflater; the outcome is zlib's error when the inflater rejects the bytes and
  \<^verbatim>\<open>struct.error\<close> otherwise (no byte is left for CRC32 and ISIZE), never
  ValueError('Malformed BGZF block').
\<close>

theorem load_bgzf_block_inflates_rest_of_file:
  "\<forall>z. load_bgzf_block z \<lparr>contents = minus_one_file, position = 0\<rparr>
         = (case decompress z [0xff, 0xff, 0xff] of
              None \<Rightarrow> Inl ZlibError
            | Some data \<Rightarrow> Inl StructError)
       \<and> load_bgzf_block z \<lparr>contents = minus_one_file, position = 0\<rparr>
           \<noteq> Inl (ValueError ''Malformed BGZF block'')"
proof
  fix z
  have l: "drop (position \<lparr>contents = minus_one_file, position = 0\<rparr>)
             (contents \<lparr>contents = minus_one_file, position = 0\<rparr>)
           = bgzf_header @ le_bytes 2 24 @ [0xff, 0xff, 0xff]"
    by (simp add: minus_one_file_layout)
  from load_bgzf_block_short_length(2) [OF l valid_bgzf_header, of z]
  show "load_bgzf_block z \<lparr>contents = minus_one_file, position = 0\<rparr>
         = (case decompress z [0xff, 0xff, 0xff] of
              None \<Rightarrow> Inl ZlibError
            | Some data \<Rightarrow> Inl StructError)
       \<and> load_bgzf_block z \<lparr>contents = minus_one_file, position = 0\<rparr>
           \<noteq> Inl (ValueError ''Malformed BGZF block'')"
    by (simp split: option.split)
qed

theorem load_bgzf_block_negative_length_witness:
  "load_bgzf_block stored_zlib \<lparr>contents = minus_one_file, position = 0\<rparr> = Inl ZlibError"
proof -
  have l: "drop (position \<lparr>contents = minus_one_file, position = 0\<rparr>)
             (contents \<lparr>contents = minus_one_file, position = 0\<rparr>)
           = bgzf_header @ le_bytes 2 24 @ [0xff, 0xff, 0xff]"
    by (simp add: minus_one_file_layout)
  have d: "decompress stored_zlib [0xff, 0xff, 0xff] = None"
    by (simp add: stored_zlib_def stored_decompress_def)
  from load_bgzf_block_negative_length [OF l valid_bgzf_header, of stored_zlib] d
  show ?thesis by simp
qed

subsection \<open>Reading past the last block\<close>

text \<open>
  \<^verbatim>\<open>_load_block\<close> turns StopIteration from \<^verbatim>\<open>_load_bgzf_block\<close> into an empty buffer, the
  end of the file. \<^verbatim>\<open>_load_bgzf_block\<close> never raises it: at the end of the file
  \<^verbatim>\<open>handle.read(16)\<close> returns no bytes and unpacking them raises \<^verbatim>\<open>struct.error\<close>.
\<close>

declare read.simps [simp del]

lemma bind_err_not_StopIteration:
  assumes "m \<noteq> Inl StopIteration" and "\<And>x. f x \<noteq> Inl StopIteration"
  shows "bind_err m f \<noteq> Inl StopIteration"
  using assms by (cases m) (simp_all add: bind_err_def)

lemma h_read_not_StopIteration: "h_read h n \<noteq> Inl StopIteration"
  by (simp add: h_read_def Let_def)

lemma unpack_not_StopIteration:
  "unpack_bgzf_metaheader raw \<noteq> Inl StopIteration"
  "unpack_H raw \<noteq> Inl StopIteration"
  "unpack_gzip_integrity raw \<noteq> Inl StopIteration"
  by (simp_all add: unpack_bgzf_metaheader_def unpack_H_def unpack_gzip_integrity_def)

lemma bgzf_metaheader_not_StopIteration: "bgzf_metaheader h \<noteq> Inl StopIteration"
  unfolding bgzf_metaheader_def
  apply (rule bind_err_not_StopIteration [OF h_read_not_StopIteration])
  apply (simp only: split_paired_all prod.case)
  apply (rule bind_err_not_StopIteration [OF unpack_not_StopIteration(1)])
  apply (simp only: Let_def split: if_split)
  apply simp
  done

lemma load_bgzf_block_not_StopIteration: "load_bgzf_block z h \<noteq> Inl StopIteration"
  unfolding load_bgzf_block_def
  apply (rule bind_err_not_StopIteration [OF bgzf_metaheader_not_StopIteration])
  apply (simp only: split_paired_all prod.case Let_def)
  apply (rule bind_err_not_StopIteration [OF h_read_not_StopIteration])
  apply (simp only: split_paired_all prod.case)
  apply (rule bind_err_not_StopIteration [OF unpack_not_StopIteration(2)])
  apply (rule bind_err_not_StopIteration [OF h_read_not_StopIteration])
  apply (simp only: split_paired_all prod.case)
  apply (rule bind_err_not_StopIteration)
   apply (simp split: option.split)
  apply (rule bind_err_not_StopIteration [OF h_read_not_StopIteration])
  apply (simp only: split_paired_all prod.case)
  apply (rule bind_err_not_StopIteration [OF unpack_not_StopIteration(3)])
  apply (simp only: split_paired_all prod.case)
  apply (simp split: if_split)
  done

lemma bgzf_metaheader_at_end:
  assumes "length (contents h) \<le> position h"
  shows "bgzf_metaheader h = Inl StructError"
proof -
  from assms have "h_read h 16 = Inr ([], h)"
    by (simp add: h_read_def Let_def)
  then show ?thesis
    by (simp add: bgzf_metaheader_def bind_err_def unpack_bgzf_metaheader_def)
qed

lemma load_bgzf_block_at_end:
  assumes "length (contents h) \<le> position h"
  shows "load_bgzf_block z h = Inl StructError"
  by (simp add: load_bgzf_block_def bgzf_metaheader_at_end [OF assms] bind_err_def)

lemma load_block_past_end:
  assumes "block_start_offset r = Some b" and "block_raw_length r = Some l" and "l \<noteq> 0"
    and "0 \<le> b + l" and "int (length (contents (handle r))) \<le> b + l"
    and "\<not> lru_contains (buffers r) (b + l)"
  shows "load_block z r None = Inl StructError"
proof -
  have "load_bgzf_block z ((handle r)\<lparr>position := nat (b + l)\<rparr>) = Inl StructError"
    using assms(4,5) by (intro load_bgzf_block_at_end) simp
  with assms show ?thesis
    by (simp add: load_block_def bind_err_def h_seek_def)
qed

text \<open>
  The reader of a file that consists of the EOF marker alone, as \<^verbatim>\<open>__init__\<close> has it
  before its call \<^verbatim>\<open>_load_block(handle.tell())\<close>, and after that call: the cursor on
  the last block of the file, behind its (empty) payload.
\<close>

definition eof_file_reader :: reader where
  "eof_file_reader =
     \<lparr>handle = \<lparr>contents = bgzf_eof, position = 28\<rparr>,
      text_mode = False,
      buffers = \<lparr>max_cache = 128, entries = [(0, ([], 28))]\<rparr>,
      block_start_offset = Some 0,
      block_raw_length = Some 28,
      buffer = [],
      within_block_offset = 0,
      random_access = False,
      index = None,
      header = \<lparr>n_refs = 0, refs = Map.empty\<rparr>\<rparr>"

lemma eof_file_reader_next: "load_block z eof_file_reader None = Inl StructError"
  by (rule load_block_past_end [where b = 0 and l = 28])
     (simp_all add: eof_file_reader_def bgzf_eof_def lru_contains_def)

definition eof_file_reader_init :: reader where
  "eof_file_reader_init =
     \<lparr>handle = \<lparr>contents = bgzf_eof, position = 0\<rparr>,
      text_mode = False,
      buffers = \<lparr>max_cache = 128, entries = []\<rparr>,
      block_start_offset = None,
      block_raw_length = None,
      buffer = [],
      within_block_offset = 0,
      random_access = False,
      index = None,
      header = \<lparr>n_refs = 0, refs = Map.empty\<rparr>\<rparr>"

lemma bgzf_eof_layout:
  "bgzf_eof = bgzf_header @ le_bytes 2 27 @ [0x03, 0x00] @ le_bytes 4 0 @ le_bytes 4 0 @ []"
  by (simp add: bgzf_eof_def bgzf_header_def le_bytes_2 le_bytes_4)

lemma load_bgzf_block_eof_marker:
  assumes "decompress z [0x03, 0x00] = Some []" and "crc32 z [] = 0"
  shows "load_bgzf_block z \<lparr>contents = bgzf_eof, position = 0\<rparr>
           = Inr ((28, []), \<lparr>contents = bgzf_eof, position = 28\<rparr>)"
proof -
  have l: "drop (position \<lparr>contents = bgzf_eof, position = 0\<rparr>)
             (contents \<lparr>contents = bgzf_eof, position = 0\<rparr>)
           = bgzf_header @ le_bytes 2 27 @ [0x03, 0x00] @ le_bytes 4 0 @ le_bytes 4 0 @ []"
    using bgzf_eof_layout by simp
  from load_bgzf_block_layout [OF l valid_bgzf_header _ _ _ _ _ _ _ assms(1)] assms(2)
  show ?thesis by simp
qed

lemma eof_file_reader_reached:
  assumes "decompress z [0x03, 0x00] = Some []" and "crc32 z [] = 0"
  shows "load_block z eof_file_reader_init (Some 0) = Inr eof_file_reader"
  by (simp add: load_block_def bind_err_def eof_file_reader_init_def h_seek_def h_tell_def
      lru_contains_def lru_put_def load_bgzf_block_eof_marker [OF assms] eof_file_reader_def)

text \<open>
  C2. The claim: past the last payload byte of the last block, loading the following
  block puts the cursor in the EOF state with an empty payload, and \<^verbatim>\<open>read(n)\<close> with
  \<open>n > 0\<close> returns the empty byte string. With the cursor on the last block of the file,
  \<^verbatim>\<open>_load_block()\<close> raises \<^verbatim>\<open>struct.error\<close>, and so does \<^verbatim>\<open>read(1)\<close>.
\<close>

theorem read_past_last_block_raises:
  "load_block z eof_file_reader None = Inl StructError
   \<and> read z eof_file_reader 1 = Inl StructError"
proof -
  have "read z eof_file_reader 1 = Inl StructError"
    by (subst read.simps) (simp add: eof_file_reader_next, simp add: eof_file_reader_def)
  with eof_file_reader_next show ?thesis by simp
qed

end
